theory Spec2Isabelle
  imports Main
begin

section \<open>The account edit form of ElectronMail\<close>

text \<open>
  A shallow embedding of \<^verbatim>\<open>src/web/browser-window/app/_options/account-edit.component.ts\<close>:
  the component's fields become a record, its methods become functions from the component
  to an outcome and the component afterwards, a thrown \<^verbatim>\<open>Error\<close> becomes a value.
  What the file imports and does not define is a parameter of the functions that use it:
  the range validation utility, the store's account selector, the blocking confirmation
  dialog and the conversion of a number to a string. The registration of the click
  listener, the two progress streams and the release of the subscriptions take no part in
  what the methods compute and are left out.
\<close>

subsection \<open>Values held by form controls\<close>

text \<open>
  A control of the form holds a string (text inputs, the entry URL selection) or a boolean
  (check boxes), or one of \<^verbatim>\<open>null\<close> and \<^verbatim>\<open>undefined\<close>: every control starts as
  \<^verbatim>\<open>null\<close>, and an optional field of an account is \<^verbatim>\<open>undefined\<close> when absent.
\<close>

datatype 'a nullable = Undefined | Null | Val 'a

text \<open>JavaScript's truthiness of such a value: a string is truthy unless it is empty.\<close>

fun truthy :: "string nullable \<Rightarrow> bool" where
  "truthy (Val s) = (s \<noteq> [])"
| "truthy Null = False"
| "truthy Undefined = False"

text \<open>\<^verbatim>\<open>Boolean(v)\<close> on the value of a check box.\<close>

fun Boolean :: "bool nullable \<Rightarrow> bool" where
  "Boolean (Val b) = b"
| "Boolean Null = False"
| "Boolean Undefined = False"

text \<open>
  \<^verbatim>\<open>String.prototype.trim\<close> removes white space and line terminators from both ends.
  A \<^typ>\<open>char\<close> stands for a code unit below 256; the white space among those is
  tab, line feed, vertical tab, form feed, carriage return, space and no-break space.
\<close>

definition WhiteSpace :: "char \<Rightarrow> bool" where
  "WhiteSpace c = (of_char c \<in> {9, 10, 11, 12, 13, 32, 160 :: nat})"

definition trim :: "string \<Rightarrow> string" where
  "trim s = rev (dropWhile WhiteSpace (rev (dropWhile WhiteSpace s)))"

text \<open>The expression \<^verbatim>\<open>v && v.trim()\<close>: a falsy \<^verbatim>\<open>v\<close> is the result as it is.\<close>

definition value_and_trim :: "string nullable \<Rightarrow> string nullable" where
  "value_and_trim v = (case v of Val s \<Rightarrow> if truthy v then Val (trim s) else v | _ \<Rightarrow> v)"

subsection \<open>Accounts, patches and actions\<close>

record proxy =
  proxyRules :: "string nullable"
  proxyBypassRules :: "string nullable"

record credentials =
  password :: "string nullable"
  twoFactorCode :: "string nullable"
  mailPassword :: "string nullable"

text \<open>The range \<^verbatim>\<open>{start, end}\<close> of numbers; \<open>'n\<close> is the type of numbers.\<close>

record 'n seconds_range =
  start :: 'n
  end' :: 'n

text \<open>
  \<^verbatim>\<open>AccountConfig\<close>, with the fields this component reads. The optional objects
  \<^verbatim>\<open>proxy\<close> and \<^verbatim>\<open>loginDelaySecondsRange\<close> are only tested for presence, so
  they are options; the other fields are handed to the controls as they are.
\<close>

record 'n AccountConfig =
  login :: string
  title :: "string nullable"
  entryUrl :: "string nullable"
  database :: "bool nullable"
  persistentSession :: "bool nullable"
  rotateUserAgent :: "bool nullable"
  credentials :: credentials
  proxy :: "proxy option"
  loginDelayUntilSelected :: "bool nullable"
  loginDelaySecondsRange :: "'n seconds_range option"

text \<open>
  \<^verbatim>\<open>AccountConfigCreateUpdatePatch\<close> as \<^verbatim>\<open>submit\<close> builds it. The key
  \<^verbatim>\<open>proxy\<close> is present or omitted; \<^verbatim>\<open>loginDelaySecondsRange\<close> is a range or
  \<^verbatim>\<open>undefined\<close>.
\<close>

record 'n AccountConfigCreateUpdatePatch =
  login :: "string nullable"
  title :: "string nullable"
  entryUrl :: "string nullable"
  database :: bool
  persistentSession :: bool
  rotateUserAgent :: bool
  credentials :: credentials
  proxy :: "proxy option"
  loginDelayUntilSelected :: bool
  loginDelaySecondsRange :: "'n seconds_range option"

text \<open>The three variants of \<^verbatim>\<open>OPTIONS_ACTIONS\<close> the component dispatches.\<close>

datatype 'n action =
  AddAccountRequest "'n AccountConfigCreateUpdatePatch"
| UpdateAccountRequest "'n AccountConfigCreateUpdatePatch"
| RemoveAccountRequest "'n AccountConfig"

datatype error = Error string

text \<open>
  What \<^verbatim>\<open>validateLoginDelaySecondsRange\<close> returns: an object with the key
  \<^verbatim>\<open>validationError\<close>, or the range.
\<close>

datatype 'n validated = ValidationError string | Validated "'n seconds_range"

subsection \<open>The component\<close>

record controls =
  login :: "string nullable"
  title :: "string nullable"
  database :: "bool nullable"
  persistentSession :: "bool nullable"
  rotateUserAgent :: "bool nullable"
  entryUrl :: "string nullable"
  proxyRules :: "string nullable"
  proxyBypassRules :: "string nullable"
  password :: "string nullable"
  twoFactorCode :: "string nullable"
  mailPassword :: "string nullable"
  loginDelayUntilSelected :: "bool nullable"
  loginDelaySecondsRange :: "string nullable"

text \<open>
  The component: the value of each of its thirteen controls, the names of the controls
  that the form group holds, the loaded account (\<open>None\<close> while \<^verbatim>\<open>this.account\<close> is
  \<^verbatim>\<open>undefined\<close>), and the store, which this file only dispatches to: it is the sequence
  of the actions dispatched so far. \<^verbatim>\<open>patchValue\<close> on a control sets its value.
\<close>

record 'n AccountEditComponent =
  controls :: controls
  form :: "string set"
  account :: "'n AccountConfig option"
  store :: "'n action list"

definition dispatch :: "'n action \<Rightarrow> 'n action list \<Rightarrow> 'n action list" where
  "dispatch a st = st @ [a]"

definition removeControl :: "string \<Rightarrow> string set \<Rightarrow> string set" where
  "removeControl name fg = fg - {name}"

text \<open>The field initialisers: every control is \<^verbatim>\<open>null\<close> and registered in the form.\<close>

definition controls_init :: controls where
  "controls_init =
     \<lparr>controls.login = Null, title = Null, database = Null, persistentSession = Null,
      rotateUserAgent = Null, entryUrl = Null, proxyRules = Null, proxyBypassRules = Null,
      password = Null, twoFactorCode = Null, mailPassword = Null,
      loginDelayUntilSelected = Null, loginDelaySecondsRange = Null\<rparr>"

definition AccountEditComponent_new :: "'n action list \<Rightarrow> 'n AccountEditComponent" where
  "AccountEditComponent_new st =
     \<lparr>controls = controls_init,
      form = {''login'', ''title'', ''database'', ''persistentSession'', ''rotateUserAgent'',
              ''entryUrl'', ''proxyRules'', ''proxyBypassRules'', ''password'',
              ''twoFactorCode'', ''mailPassword'', ''loginDelayUntilSelected'',
              ''loginDelaySecondsRange''},
      account = None,
      store = st\<rparr>"

subsection \<open>The validator of the login delay range control\<close>

record validation_errors =
  errorMsg :: string

text \<open>
  The validator reads \<^verbatim>\<open>this.controls\<close>, which is still \<^verbatim>\<open>undefined\<close> (here
  \<open>None\<close>) while the field initialiser runs. \<^verbatim>\<open>value && validate(value)\<close> calls
  the utility on a truthy value only; \<open>None\<close> is a falsy \<^verbatim>\<open>validated\<close>.
\<close>

definition loginDelaySecondsRange_validator ::
  "(string \<Rightarrow> 'n validated) \<Rightarrow> controls option \<Rightarrow> validation_errors option" where
  "loginDelaySecondsRange_validator validateLoginDelaySecondsRange this_controls =
     (let control = map_option controls.loginDelaySecondsRange this_controls;
          val = (case control of None \<Rightarrow> Undefined | Some v \<Rightarrow> v);
          validated = (case val of
                         Val s \<Rightarrow> if truthy val then Some (validateLoginDelaySecondsRange s) else None
                       | _ \<Rightarrow> None)
      in case validated of
           Some (ValidationError msg) \<Rightarrow> Some \<lparr>errorMsg = msg\<rparr>
         | Some (Validated r) \<Rightarrow> None
         | None \<Rightarrow> None)"

subsection \<open>The account stream and its subscriber\<close>

record Params =
  login :: "string nullable"

text \<open>
  The parameters of the route, of which the pipe reads \<^verbatim>\<open>login\<close>; an absent key is
  \<^verbatim>\<open>undefined\<close>. The emissions of a stage of the pipe are a list. An inner observable
  that is an array emits its elements, and \<^verbatim>\<open>mergeMap\<close> passes them on.
\<close>

definition mergeMap :: "('a \<Rightarrow> 'b list) \<Rightarrow> 'a list \<Rightarrow> 'b list" where
  "mergeMap f xs = concat (map f xs)"

text \<open>
  \<^verbatim>\<open>concatMap\<close> is subscribed to one inner observable at a time and takes the next
  value only when that one has completed. Its inner observable here is
  \<^verbatim>\<open>store.select\<close>, which emits on subscription what the selector yields on the
  store's state at that moment and never completes. So \<^verbatim>\<open>concatMap\<close> has a state,
  the value it is serving (\<open>None\<close> before the first): the first value it receives is served,
  \<open>f\<close> giving what its inner observable emits on subscription, and every later value waits
  for a completion that does not come.
\<close>

fun concatMap :: "('a \<Rightarrow> 'b list) \<Rightarrow> 'a option \<Rightarrow> 'a list \<Rightarrow> 'b list \<times> 'a option" where
  "concatMap f serving [] = ([], serving)"
| "concatMap f None (x # xs) = (f x, Some x)"
| "concatMap f (Some y) (x # xs) = ([], Some y)"

fun String :: "string nullable \<Rightarrow> string" where
  "String (Val s) = s"
| "String Null = ''null''"
| "String Undefined = ''undefined''"

text \<open>
  \<open>account_stream\<close> is what the pipe emits on one emission of \<^verbatim>\<open>params\<close> or
  \<^verbatim>\<open>queryParams\<close>, and the state of its \<^verbatim>\<open>concatMap\<close> afterwards: \<open>serving\<close> is
  the login whose selection the pipe is subscribed to, \<open>None\<close> from the subscription in
  \<^verbatim>\<open>ngOnInit\<close> until the first emission with a login. \<open>pickAccount\<close> is the selector
  on the store's state at the moment of the emission (\<open>None\<close> when the store has no account
  with that login). What the served selection emits when the store's state changes later
  is another event than the parameters' and is not part of this function.
\<close>

definition account_stream ::
  "(string \<Rightarrow> 'n AccountConfig option) \<Rightarrow> string option \<Rightarrow> Params \<Rightarrow>
   'n AccountConfig list \<times> string option" where
  "account_stream pickAccount serving emission =
     (let logins =
            mergeMap (\<lambda>p. if truthy (Params.login p) then [String (Params.login p)] else [])
              [emission];
          selected = concatMap (\<lambda>l. [pickAccount l]) serving logins
      in (mergeMap (\<lambda>found. case found of Some a \<Rightarrow> [a] | None \<Rightarrow> []) (fst selected),
          snd selected))"

text \<open>
  The subscriber of \<^verbatim>\<open>ngOnInit\<close>, run on an emitted account: it stores the account,
  removes the login control from the form group and patches the other controls.
  \<open>toString\<close> is the conversion of a number to a string in the template literal.
\<close>

definition account_next ::
  "('n \<Rightarrow> string) \<Rightarrow> 'n AccountConfig \<Rightarrow> 'n AccountEditComponent \<Rightarrow> 'n AccountEditComponent" where
  "account_next toString a this =
     (let this1 = this\<lparr>account := Some a\<rparr>;
          this2 = this1\<lparr>form := removeControl ''login'' (form this1)\<rparr>;
          cs = (controls this2)
            \<lparr>controls.title := AccountConfig.title a,
             controls.database := AccountConfig.database a,
             controls.persistentSession := AccountConfig.persistentSession a,
             controls.rotateUserAgent := AccountConfig.rotateUserAgent a,
             controls.entryUrl := AccountConfig.entryUrl a,
             controls.proxyRules :=
               (case AccountConfig.proxy a of Some p \<Rightarrow> proxy.proxyRules p | None \<Rightarrow> Null),
             controls.proxyBypassRules :=
               (case AccountConfig.proxy a of Some p \<Rightarrow> proxy.proxyBypassRules p | None \<Rightarrow> Null),
             controls.password := credentials.password (AccountConfig.credentials a),
             controls.twoFactorCode := credentials.twoFactorCode (AccountConfig.credentials a),
             controls.mailPassword := credentials.mailPassword (AccountConfig.credentials a),
             controls.loginDelayUntilSelected := AccountConfig.loginDelayUntilSelected a,
             controls.loginDelaySecondsRange :=
               (case AccountConfig.loginDelaySecondsRange a of
                  Some r \<Rightarrow> Val (toString (start r) @ ''-'' @ toString (end' r))
                | None \<Rightarrow> Undefined)\<rparr>
      in this2\<lparr>controls := cs\<rparr>)"

text \<open>
  The subscription: the subscriber runs on each account the stream emits, in order. The
  result is the component and the state of the pipe after the emission.
\<close>

definition ngOnInit_subscription ::
  "('n \<Rightarrow> string) \<Rightarrow> (string \<Rightarrow> 'n AccountConfig option) \<Rightarrow> string option \<Rightarrow> Params \<Rightarrow>
   'n AccountEditComponent \<Rightarrow> 'n AccountEditComponent \<times> string option" where
  "ngOnInit_subscription toString pickAccount serving emission this =
     (let emitted = account_stream pickAccount serving emission
      in (foldl (\<lambda>c a. account_next toString a c) this (fst emitted), snd emitted))"

subsection \<open>submit and remove\<close>

text \<open>
  A method returns its outcome, \<open>Inl\<close> of the thrown error or \<open>Inr ()\<close>, and the component
  afterwards. The function that computes the patch's \<^verbatim>\<open>loginDelaySecondsRange\<close> calls
  the utility on a truthy control value only and throws on a validation error.
\<close>

definition submit_loginDelaySecondsRange ::
  "(string \<Rightarrow> 'n validated) \<Rightarrow> controls \<Rightarrow> error + 'n seconds_range option" where
  "submit_loginDelaySecondsRange validateLoginDelaySecondsRange cs =
     (let validated = (case controls.loginDelaySecondsRange cs of
                         Val s \<Rightarrow> if truthy (Val s) then Some (validateLoginDelaySecondsRange s)
                                  else None
                       | _ \<Rightarrow> None)
      in case validated of
           Some (ValidationError msg) \<Rightarrow> Inl (Error msg)
         | Some (Validated r) \<Rightarrow> Inr (Some r)
         | None \<Rightarrow> Inr None)"

definition submit ::
  "(string \<Rightarrow> 'n validated) \<Rightarrow> 'n AccountEditComponent \<Rightarrow>
   (error + unit) \<times> 'n AccountEditComponent" where
  "submit validateLoginDelaySecondsRange this =
     (let cs = controls this;
          acc = account this;
          prx = \<lparr>proxy.proxyRules = value_and_trim (controls.proxyRules cs),
                 proxyBypassRules = value_and_trim (controls.proxyBypassRules cs)\<rparr>
      in case submit_loginDelaySecondsRange validateLoginDelaySecondsRange cs of
           Inl e \<Rightarrow> (Inl e, this)
         | Inr rng \<Rightarrow>
             (let patch =
                \<lparr>AccountConfigCreateUpdatePatch.login =
                   (case acc of Some a \<Rightarrow> Val (AccountConfig.login a) | None \<Rightarrow> controls.login cs),
                 title = controls.title cs,
                 entryUrl = controls.entryUrl cs,
                 database = Boolean (controls.database cs),
                 persistentSession = Boolean (controls.persistentSession cs),
                 rotateUserAgent = Boolean (controls.rotateUserAgent cs),
                 credentials =
                   \<lparr>credentials.password = controls.password cs,
                    twoFactorCode = controls.twoFactorCode cs,
                    mailPassword = controls.mailPassword cs\<rparr>,
                 proxy =
                   (if truthy (proxy.proxyRules prx) \<or> truthy (proxy.proxyBypassRules prx)
                    then Some prx else None),
                 loginDelayUntilSelected = Boolean (controls.loginDelayUntilSelected cs),
                 loginDelaySecondsRange = rng\<rparr>
              in (Inr (),
                  this\<lparr>store :=
                    dispatch
                      (case acc of
                         Some a \<Rightarrow> UpdateAccountRequest patch
                       | None \<Rightarrow> AddAccountRequest patch)
                      (store this)\<rparr>)))"

text \<open>\<open>confirm\<close> is the blocking dialog: the user's answer to the message shown.\<close>

definition remove ::
  "(string \<Rightarrow> bool) \<Rightarrow> 'n AccountEditComponent \<Rightarrow> (error + unit) \<times> 'n AccountEditComponent" where
  \<open>remove confirm this =
     (case account this of
        None \<Rightarrow> (Inl (Error ''No "Account" to remove''), this)
      | Some a \<Rightarrow>
          if \<not> confirm (''Please confirm "'' @ AccountConfig.login a @ ''" account removing!'')
          then (Inr (), this)
          else (Inr (), this\<lparr>store := dispatch (RemoveAccountRequest a) (store this)\<rparr>))\<close>

subsection \<open>Instances of the parameters\<close>

text \<open>
  For the concrete cases below: a validation utility on natural numbers that accepts the
  string \<^verbatim>\<open>5-10\<close> and rejects every other string, the decimal notation of a natural
  number, a dialog that is always declined and one that is always accepted, an account, and
  a store that holds this account alone.
\<close>

definition validate_5_10 :: "string \<Rightarrow> nat validated" where
  "validate_5_10 s =
     (if s = ''5-10'' then Validated \<lparr>start = 5, end' = 10\<rparr>
      else ValidationError ''Invalid range'')"

fun toString_nat :: "nat \<Rightarrow> string" where
  "toString_nat n =
     (if n < 10 then [''0123456789'' ! n]
      else toString_nat (n div 10) @ [''0123456789'' ! (n mod 10)])"

definition declined :: "string \<Rightarrow> bool" where
  "declined message = False"

definition accepted :: "string \<Rightarrow> bool" where
  "accepted message = True"

definition account_alice :: "nat AccountConfig" where
  "account_alice =
     \<lparr>AccountConfig.login = ''alice'',
      title = Val ''Alice'',
      entryUrl = Val ''https://mail.protonmail.com'',
      database = Val True,
      persistentSession = Undefined,
      rotateUserAgent = Undefined,
      credentials =
        \<lparr>credentials.password = Val ''secret'', twoFactorCode = Undefined,
         mailPassword = Undefined\<rparr>,
      proxy = None,
      loginDelayUntilSelected = Val False,
      loginDelaySecondsRange = Some \<lparr>start = 5, end' = 10\<rparr>\<rparr>"

definition pick_alice :: "string \<Rightarrow> nat AccountConfig option" where
  "pick_alice l = (if l = ''alice'' then Some account_alice else None)"

text \<open>A new component, not yet given an account, with one control set by the user.\<close>

definition with_proxyRules :: "string nullable \<Rightarrow> nat AccountEditComponent" where
  "with_proxyRules v =
     (AccountEditComponent_new [])\<lparr>controls := controls_init\<lparr>controls.proxyRules := v\<rparr>\<rparr>"

definition with_login :: "string nullable \<Rightarrow> nat AccountEditComponent" where
  "with_login v =
     (AccountEditComponent_new [])\<lparr>controls := controls_init\<lparr>controls.login := v\<rparr>\<rparr>"

definition with_loginDelaySecondsRange :: "string nullable \<Rightarrow> nat AccountEditComponent" where
  "with_loginDelaySecondsRange v =
     (AccountEditComponent_new [])
       \<lparr>controls := controls_init\<lparr>controls.loginDelaySecondsRange := v\<rparr>\<rparr>"

text \<open>The component after the subscriber has run on this account, from a new component.\<close>

definition loaded_alice :: "nat AccountEditComponent" where
  "loaded_alice = account_next toString_nat account_alice (AccountEditComponent_new [])"

section \<open>Properties\<close>

subsection \<open>Trimming\<close>

lemma dropWhile_all_iff: "(\<forall>c\<in>set (dropWhile P s). P c) \<longleftrightarrow> (\<forall>c\<in>set s. P c)"
  by (induction s) auto

lemma last_dropWhile: "dropWhile P xs \<noteq> [] \<Longrightarrow> last (dropWhile P xs) = last xs"
  by (induction xs) (auto split: if_splits)

lemma trim_Nil: "trim [] = []"
  by (simp add: trim_def)

text \<open>Trimming leaves nothing exactly when the string is white space only.\<close>

lemma trim_eq_Nil_iff: "trim s = [] \<longleftrightarrow> (\<forall>c\<in>set s. WhiteSpace c)"
  by (simp add: trim_def dropWhile_all_iff)

text \<open>Trimming removes white space at both ends and nothing else.\<close>

lemma trim_decomposition:
  "\<exists>l r. s = l @ trim s @ r \<and> (\<forall>c\<in>set l. WhiteSpace c) \<and> (\<forall>c\<in>set r. WhiteSpace c)"
proof -
  let ?t = "dropWhile WhiteSpace s"
  have a: "s = takeWhile WhiteSpace s @ ?t" by simp
  have b: "rev ?t = takeWhile WhiteSpace (rev ?t) @ dropWhile WhiteSpace (rev ?t)" by simp
  have c: "?t = trim s @ rev (takeWhile WhiteSpace (rev ?t))"
    unfolding trim_def by (metis b rev_append rev_rev_ident)
  have d: "\<forall>c\<in>set (rev (takeWhile WhiteSpace (rev ?t))). WhiteSpace c"
    by (auto dest: set_takeWhileD)
  have e: "\<forall>c\<in>set (takeWhile WhiteSpace s). WhiteSpace c"
    by (auto dest: set_takeWhileD)
  have "s = takeWhile WhiteSpace s @ trim s @ rev (takeWhile WhiteSpace (rev ?t))"
    using a c by metis
  with d e show ?thesis by blast
qed

text \<open>What is left neither starts nor ends with white space.\<close>

lemma trim_ends:
  assumes "trim s \<noteq> []"
  shows "\<not> WhiteSpace (hd (trim s)) \<and> \<not> WhiteSpace (last (trim s))"
proof -
  let ?t = "dropWhile WhiteSpace s"
  let ?u = "dropWhile WhiteSpace (rev ?t)"
  have u: "?u \<noteq> []" using assms by (simp add: trim_def)
  then have l: "\<not> WhiteSpace (hd ?u)" by (rule hd_dropWhile)
  have la: "last (trim s) = hd ?u" using u by (simp add: trim_def last_rev)
  have t: "?t \<noteq> []" using u by (metis dropWhile.simps(1) rev.simps(1))
  then have ht: "\<not> WhiteSpace (hd ?t)" by (rule hd_dropWhile)
  have "hd (trim s) = last ?u" using u by (simp add: trim_def hd_rev)
  also have "\<dots> = last (rev ?t)" using u by (rule last_dropWhile)
  also have "\<dots> = hd ?t" using t by (simp add: last_rev)
  finally show ?thesis using ht l la by simp
qed

subsection \<open>When submit returns, and what the stream delivers\<close>

text \<open>\<open>submit\<close> returns normally exactly when the range computation does not throw.\<close>

lemma submit_returns_iff:
  "fst (submit v this) = Inr () \<longleftrightarrow>
   (\<exists>rng. submit_loginDelaySecondsRange v (controls this) = Inr rng)"
  by (simp add: submit_def Let_def split: sum.splits)

text \<open>
  The first parameters with a login are served: when the store has an account with that
  login, the subscriber runs on it.
\<close>

lemma subscription_emits:
  assumes "Params.login p = Val l" and "l \<noteq> []" and "pickAccount l = Some a"
  shows "ngOnInit_subscription toString pickAccount None p this =
           (account_next toString a this, Some l)"
  using assms
  by (simp add: ngOnInit_subscription_def account_stream_def mergeMap_def Let_def)

lemma subscription_serves_first:
  assumes "Params.login p = Val l" and "l \<noteq> []"
  shows "snd (ngOnInit_subscription toString pickAccount None p this) = Some l"
  using assms
  by (simp add: ngOnInit_subscription_def account_stream_def mergeMap_def Let_def)

text \<open>Parameters without a login emit nothing and leave the pipe as it is.\<close>

lemma account_stream_no_login:
  assumes "\<not> truthy (Params.login p)"
  shows "account_stream pickAccount serving p = ([], serving)"
  using assms by (simp add: account_stream_def mergeMap_def Let_def)

text \<open>
  Once a login is served, no later parameters make the stream emit, whatever the store
  holds: the component stays as it is.
\<close>

lemma account_stream_serving:
  "account_stream pickAccount (Some k) p = ([], Some k)"
  by (cases "truthy (Params.login p)") (simp_all add: account_stream_def mergeMap_def Let_def)

lemma subscription_serving:
  "ngOnInit_subscription toString pickAccount (Some k) p this = (this, Some k)"
  by (simp add: ngOnInit_subscription_def account_stream_serving)

lemma subscription_after_first:
  assumes "Params.login p = Val l" and "l \<noteq> []"
  shows "ngOnInit_subscription toString pickAccount'
           (snd (ngOnInit_subscription toString pickAccount None p this)) q
           (fst (ngOnInit_subscription toString pickAccount None p this))
         = ngOnInit_subscription toString pickAccount None p this"
  using subscription_serves_first [OF assms, of toString pickAccount this]
  by (simp add: subscription_serving prod_eq_iff)

subsection \<open>The instances\<close>

lemma new_fields:
  "account (AccountEditComponent_new st) = None"
  "store (AccountEditComponent_new st) = st"
  "controls (AccountEditComponent_new st) = controls_init"
  "''login'' \<in> form (AccountEditComponent_new st)"
  by (simp_all add: AccountEditComponent_new_def)

lemma account_alice_fields:
  "AccountConfig.login account_alice = ''alice''"
  "AccountConfig.title account_alice = Val ''Alice''"
  "AccountConfig.proxy account_alice = None"
  "AccountConfig.loginDelaySecondsRange account_alice = Some \<lparr>start = 5, end' = 10\<rparr>"
  by (simp_all add: account_alice_def)

lemma pick_alice_cases:
  "pick_alice ''alice'' = Some account_alice"
  "pick_alice ''bob'' = None"
  by (simp_all add: pick_alice_def)

lemma validate_5_10_cases:
  "validate_5_10 ''5-10'' = Validated \<lparr>start = 5, end' = 10\<rparr>"
  "validate_5_10 ''10-5'' = ValidationError ''Invalid range''"
  by (simp_all add: validate_5_10_def)

lemma loaded_alice_fields:
  "account loaded_alice = Some account_alice"
  "store loaded_alice = []"
  "controls.loginDelaySecondsRange (controls loaded_alice) = Val ''5-10''"
  "controls.login (controls loaded_alice) = Null"
  by (simp_all add: loaded_alice_def account_next_def AccountEditComponent_new_def
        account_alice_def controls_init_def Let_def)

lemma with_login_fields:
  "account (with_login x) = None"
  "store (with_login x) = []"
  "controls.login (controls (with_login x)) = x"
  "controls.loginDelaySecondsRange (controls (with_login x)) = Null"
  by (simp_all add: with_login_def AccountEditComponent_new_def controls_init_def)

lemma with_range_fields:
  "account (with_loginDelaySecondsRange x) = None"
  "store (with_loginDelaySecondsRange x) = []"
  "controls.loginDelaySecondsRange (controls (with_loginDelaySecondsRange x)) = x"
  by (simp_all add: with_loginDelaySecondsRange_def AccountEditComponent_new_def
        controls_init_def)

lemma with_proxyRules_fields:
  "account (with_proxyRules x) = None"
  "store (with_proxyRules x) = []"
  "controls.proxyRules (controls (with_proxyRules x)) = x"
  "controls.proxyBypassRules (controls (with_proxyRules x)) = Null"
  "controls.loginDelaySecondsRange (controls (with_proxyRules x)) = Null"
  by (simp_all add: with_proxyRules_def AccountEditComponent_new_def controls_init_def)

lemma submit_loaded_alice_returns: "fst (submit validate_5_10 loaded_alice) = Inr ()"
  by (simp add: submit_returns_iff submit_loginDelaySecondsRange_def loaded_alice_fields
        validate_5_10_cases)

lemma submit_with_login_returns: "fst (submit v (with_login x)) = Inr ()"
  by (simp add: submit_returns_iff submit_loginDelaySecondsRange_def with_login_fields)

lemma submit_with_proxyRules_returns: "fst (submit v (with_proxyRules x)) = Inr ()"
  by (simp add: submit_returns_iff submit_loginDelaySecondsRange_def with_proxyRules_fields)

subsection \<open>An invalid range at submission\<close>

text \<open>
  C1. When the login delay range control holds a non-empty string that the validation
  utility rejects, \<open>submit\<close> throws an error, with the utility's message, and leaves
  the component as it was: the store receives no action, neither a request to add nor one
  to update an account.
\<close>

theorem submit_invalid_range_throws:
  assumes "controls.loginDelaySecondsRange (controls this) = Val s"
    and "s \<noteq> []"
    and "validateLoginDelaySecondsRange s = ValidationError msg"
  shows "submit validateLoginDelaySecondsRange this = (Inl (Error msg), this) \<and>
         store (snd (submit validateLoginDelaySecondsRange this)) = store this"
  using assms by (simp add: submit_def submit_loginDelaySecondsRange_def Let_def)

theorem submit_invalid_range_throws_witness:
  "controls.loginDelaySecondsRange (controls (with_loginDelaySecondsRange (Val ''10-5'')))
     = Val ''10-5'' \<and>
   ''10-5'' \<noteq> [] \<and>
   validate_5_10 ''10-5'' = ValidationError ''Invalid range'' \<and>
   submit validate_5_10 (with_loginDelaySecondsRange (Val ''10-5'')) =
     (Inl (Error ''Invalid range''), with_loginDelaySecondsRange (Val ''10-5'')) \<and>
   store (snd (submit validate_5_10 (with_loginDelaySecondsRange (Val ''10-5'')))) = []"
proof -
  have h1: "controls.loginDelaySecondsRange
              (controls (with_loginDelaySecondsRange (Val ''10-5''))) = Val ''10-5''"
    by (rule with_range_fields(3))
  have h2: "''10-5'' \<noteq> []" by simp
  from submit_invalid_range_throws
         [of "with_loginDelaySecondsRange (Val ''10-5'')" "''10-5''" validate_5_10
             "''Invalid range''"]
       h1 h2 validate_5_10_cases(2) with_range_fields(2) [of "Val ''10-5''"]
  show ?thesis by simp
qed

subsection \<open>The proxy key of the patch\<close>

text \<open>
  C2, as stated, fails on a proxy value of white space only: the control value
  \<^verbatim>\<open>"  "\<close> is a non-empty string, the other proxy control is \<open>null\<close>, and the patch
  that \<open>submit\<close> dispatches has no \<open>proxy\<close> key.
\<close>

theorem submit_proxy_key_counterexample:
  "controls.proxyRules (controls (with_proxyRules (Val ''  ''))) = Val ''  '' \<and>
   ''  '' \<noteq> [] \<and>
   submit validate_5_10 (with_proxyRules (Val ''  '')) =
     (Inr (),
      (with_proxyRules (Val ''  ''))
        \<lparr>store :=
           [AddAccountRequest
              \<lparr>AccountConfigCreateUpdatePatch.login = Null, title = Null, entryUrl = Null,
               database = False, persistentSession = False, rotateUserAgent = False,
               credentials =
                 \<lparr>credentials.password = Null, twoFactorCode = Null, mailPassword = Null\<rparr>,
               proxy = None, loginDelayUntilSelected = False,
               loginDelaySecondsRange = None\<rparr>]\<rparr>)"
  by (simp add: with_proxyRules_def submit_def submit_loginDelaySecondsRange_def Let_def
        dispatch_def value_and_trim_def trim_def WhiteSpace_def AccountEditComponent_new_def
        controls_init_def)

text \<open>
  C2, amended. Whenever \<open>submit\<close> does not throw, it dispatches one action whose patch
  omits the \<open>proxy\<close> key when both proxy control values are empty after trimming
  (\<open>null\<close>, \<open>undefined\<close>, or a string that trims to the empty string), and otherwise
  carries a \<open>proxy\<close> object with both fields: a string value trimmed, \<open>null\<close> and
  \<open>undefined\<close> as they are.
\<close>

theorem submit_proxy_key:
  assumes "fst (submit v this) = Inr ()"
  shows "\<exists>p. store (snd (submit v this)) =
               store this @ [if account this = None then AddAccountRequest p
                             else UpdateAccountRequest p] \<and>
             AccountConfigCreateUpdatePatch.proxy p =
               (if (case controls.proxyRules (controls this) of
                      Val s \<Rightarrow> trim s = [] | _ \<Rightarrow> True) \<and>
                   (case controls.proxyBypassRules (controls this) of
                      Val s \<Rightarrow> trim s = [] | _ \<Rightarrow> True)
                then None
                else Some \<lparr>proxy.proxyRules =
                             (case controls.proxyRules (controls this) of
                                Val s \<Rightarrow> Val (trim s) | x \<Rightarrow> x),
                           proxyBypassRules =
                             (case controls.proxyBypassRules (controls this) of
                                Val s \<Rightarrow> Val (trim s) | x \<Rightarrow> x)\<rparr>)"
  using assms
  by (cases "account this"; cases "submit_loginDelaySecondsRange v (controls this)";
      cases "controls.proxyRules (controls this)";
      cases "controls.proxyBypassRules (controls this)")
     (simp_all add: submit_def Let_def dispatch_def value_and_trim_def trim_Nil)

theorem submit_proxy_key_witness:
  "fst (submit validate_5_10 (with_proxyRules (Val '' a ''))) = Inr () \<and>
   (\<exists>p. store (snd (submit validate_5_10 (with_proxyRules (Val '' a '')))) =
          [AddAccountRequest p] \<and>
        AccountConfigCreateUpdatePatch.proxy p =
          Some \<lparr>proxy.proxyRules = Val ''a'', proxyBypassRules = Null\<rparr>)"
proof -
  have t: "trim '' a '' = ''a''" by (simp add: trim_def WhiteSpace_def)
  from submit_proxy_key [OF submit_with_proxyRules_returns, of validate_5_10 "Val '' a ''"]
       submit_with_proxyRules_returns [of validate_5_10 "Val '' a ''"]
       with_proxyRules_fields [of "Val '' a ''"] t
  show ?thesis by simp
qed

subsection \<open>The controls after an account has been emitted\<close>

text \<open>
  C3, as stated, fails on the login control: the subscriber never writes it. From a new
  component, after the parameters name the login of an account in the store, the login
  control still holds \<open>null\<close>, not the account's login.
\<close>

theorem login_control_counterexample:
  "Params.login \<lparr>Params.login = Val ''alice''\<rparr> = Val ''alice'' \<and>
   pick_alice ''alice'' = Some account_alice \<and>
   AccountConfig.login account_alice = ''alice'' \<and>
   controls.login (controls (fst (ngOnInit_subscription toString_nat pick_alice None
      \<lparr>Params.login = Val ''alice''\<rparr> (AccountEditComponent_new [])))) = Null \<and>
   controls.login (controls (fst (ngOnInit_subscription toString_nat pick_alice None
      \<lparr>Params.login = Val ''alice''\<rparr> (AccountEditComponent_new []))))
     \<noteq> Val (AccountConfig.login account_alice)"
  by (simp add: ngOnInit_subscription_def account_stream_def mergeMap_def
        pick_alice_def account_next_def Let_def AccountEditComponent_new_def controls_init_def
        account_alice_def)

text \<open>
  C3, amended. For every account emitted by the account stream, after the subscriber has
  run the component's account is that account and every control but the login control
  holds the value taken from the account: the title, the entry URL, the four flags and the
  three credentials hold the account's field as it is; the two proxy controls hold the
  fields of the account's proxy, or \<open>null\<close> when the account has no proxy; the login delay
  range control holds the string made of the range's start, a hyphen and its end, or
  \<open>undefined\<close> when the account has no range. The login control is not written, its
  value is what it was, and the subscriber removes it from the form group: the form group
  holds the controls it held, less the login control. The stream emits such an account on
  the first parameters that carry a login, when the store has an account with that login.
\<close>

theorem subscription_patches_controls:
  assumes "Params.login p = Val l" and "l \<noteq> []" and "pickAccount l = Some a"
  shows
  "fst (account_stream pickAccount None p) = [a] \<and>
   fst (ngOnInit_subscription toString pickAccount None p this) = account_next toString a this \<and>
   account (account_next toString b this) = Some b \<and>
   controls.title (controls (account_next toString b this)) = AccountConfig.title b \<and>
   controls.database (controls (account_next toString b this)) = AccountConfig.database b \<and>
   controls.persistentSession (controls (account_next toString b this))
     = AccountConfig.persistentSession b \<and>
   controls.rotateUserAgent (controls (account_next toString b this))
     = AccountConfig.rotateUserAgent b \<and>
   controls.entryUrl (controls (account_next toString b this)) = AccountConfig.entryUrl b \<and>
   controls.proxyRules (controls (account_next toString b this))
     = (case AccountConfig.proxy b of Some p \<Rightarrow> proxy.proxyRules p | None \<Rightarrow> Null) \<and>
   controls.proxyBypassRules (controls (account_next toString b this))
     = (case AccountConfig.proxy b of Some p \<Rightarrow> proxy.proxyBypassRules p | None \<Rightarrow> Null) \<and>
   controls.password (controls (account_next toString b this))
     = credentials.password (AccountConfig.credentials b) \<and>
   controls.twoFactorCode (controls (account_next toString b this))
     = credentials.twoFactorCode (AccountConfig.credentials b) \<and>
   controls.mailPassword (controls (account_next toString b this))
     = credentials.mailPassword (AccountConfig.credentials b) \<and>
   controls.loginDelayUntilSelected (controls (account_next toString b this))
     = AccountConfig.loginDelayUntilSelected b \<and>
   controls.loginDelaySecondsRange (controls (account_next toString b this))
     = (case AccountConfig.loginDelaySecondsRange b of
          Some r \<Rightarrow> Val (toString (start r) @ ''-'' @ toString (end' r))
        | None \<Rightarrow> Undefined) \<and>
   controls.login (controls (account_next toString b this)) = controls.login (controls this) \<and>
   form (account_next toString b this) = form this - {''login''}"
proof -
  have e: "fst (account_stream pickAccount None p) = [a]"
    using assms by (simp add: account_stream_def mergeMap_def Let_def)
  have "fst (ngOnInit_subscription toString pickAccount None p this)
          = account_next toString a this"
    using assms by (simp add: subscription_emits)
  with e show ?thesis by (simp add: account_next_def Let_def removeControl_def)
qed

theorem subscription_patches_controls_witness:
  "Params.login \<lparr>Params.login = Val ''alice''\<rparr> = Val ''alice'' \<and> ''alice'' \<noteq> [] \<and>
   pick_alice ''alice'' = Some account_alice \<and>
   fst (account_stream pick_alice None \<lparr>Params.login = Val ''alice''\<rparr>) = [account_alice] \<and>
   fst (ngOnInit_subscription toString_nat pick_alice None \<lparr>Params.login = Val ''alice''\<rparr>
     (AccountEditComponent_new [])) = loaded_alice \<and>
   account loaded_alice = Some account_alice \<and>
   controls.title (controls loaded_alice) = Val ''Alice'' \<and>
   controls.proxyRules (controls loaded_alice) = Null \<and>
   controls.loginDelaySecondsRange (controls loaded_alice) = Val ''5-10'' \<and>
   controls.login (controls loaded_alice) = Null \<and>
   form loaded_alice =
     {''title'', ''database'', ''persistentSession'', ''rotateUserAgent'',
      ''entryUrl'', ''proxyRules'', ''proxyBypassRules'', ''password'',
      ''twoFactorCode'', ''mailPassword'', ''loginDelayUntilSelected'',
      ''loginDelaySecondsRange''}"
proof -
  have p: "Params.login \<lparr>Params.login = Val ''alice''\<rparr> = Val ''alice''" by simp
  have n: "''alice'' \<noteq> []" by simp
  note t = subscription_patches_controls
             [where p = "\<lparr>Params.login = Val ''alice''\<rparr>" and l = "''alice''"
                and pickAccount = pick_alice and a = account_alice and b = account_alice
                and toString = toString_nat and this = "AccountEditComponent_new []",
              OF p n pick_alice_cases(1), folded loaded_alice_def]
  have s: "toString_nat 5 = ''5''" "toString_nat 10 = ''10''" by simp_all
  have f: "form (AccountEditComponent_new [] :: nat AccountEditComponent) - {''login''} =
     {''title'', ''database'', ''persistentSession'', ''rotateUserAgent'',
      ''entryUrl'', ''proxyRules'', ''proxyBypassRules'', ''password'',
      ''twoFactorCode'', ''mailPassword'', ''loginDelayUntilSelected'',
      ''loginDelaySecondsRange''}"
    by (auto simp add: AccountEditComponent_new_def)
  have c: "controls.login (controls (AccountEditComponent_new [] :: nat AccountEditComponent))
             = Null"
    by (simp add: AccountEditComponent_new_def controls_init_def)
  from t p pick_alice_cases(1) account_alice_fields s f c show ?thesis by simp
qed

subsection \<open>Removal\<close>

text \<open>
  C4. \<open>remove\<close> with no loaded account throws an error and dispatches nothing. With a
  loaded account, when the confirmation is declined it dispatches nothing and leaves the
  component unchanged; when the confirmation is accepted it dispatches exactly one
  \<open>RemoveAccountRequest\<close>, carrying the loaded account, and changes nothing else.
\<close>

theorem remove_cases:
  \<open>(account this = None \<longrightarrow>
      remove confirm this = (Inl (Error ''No "Account" to remove''), this)) \<and>
   (\<forall>a. account this = Some a \<longrightarrow>
      (\<not> confirm (''Please confirm "'' @ AccountConfig.login a @ ''" account removing!'') \<longrightarrow>
         remove confirm this = (Inr (), this)) \<and>
      (confirm (''Please confirm "'' @ AccountConfig.login a @ ''" account removing!'') \<longrightarrow>
         remove confirm this =
           (Inr (), this\<lparr>store := store this @ [RemoveAccountRequest a]\<rparr>)))\<close>
  by (simp add: remove_def dispatch_def)

theorem remove_cases_witness:
  \<open>account (AccountEditComponent_new [] :: nat AccountEditComponent) = None \<and>
   remove declined (AccountEditComponent_new [] :: nat AccountEditComponent) =
     (Inl (Error ''No "Account" to remove''), AccountEditComponent_new []) \<and>
   account loaded_alice = Some account_alice \<and>
   \<not> declined ''Please confirm "alice" account removing!'' \<and>
   remove declined loaded_alice = (Inr (), loaded_alice) \<and>
   accepted ''Please confirm "alice" account removing!'' \<and>
   remove accepted loaded_alice =
     (Inr (), loaded_alice\<lparr>store := [RemoveAccountRequest account_alice]\<rparr>)\<close>
proof -
  have d: "\<not> declined m" and a: "accepted m" for m
    by (simp_all add: declined_def accepted_def)
  from remove_cases [of "AccountEditComponent_new [] :: nat AccountEditComponent" declined]
       remove_cases [of loaded_alice declined] remove_cases [of loaded_alice accepted]
       new_fields(1) [of "[] :: nat action list"] loaded_alice_fields(1,2)
       account_alice_fields(1) d a
  show ?thesis by simp
qed

subsection \<open>The action variant\<close>

text \<open>
  C5. When \<open>submit\<close> does not throw, the action it dispatches is an
  \<open>UpdateAccountRequest\<close> if and only if an account is loaded, and an
  \<open>AddAccountRequest\<close> if and only if none is.
\<close>

theorem submit_action_variant:
  assumes "fst (submit v this) = Inr ()"
  shows "((\<exists>p. store (snd (submit v this)) = store this @ [UpdateAccountRequest p])
            \<longleftrightarrow> account this \<noteq> None) \<and>
         ((\<exists>p. store (snd (submit v this)) = store this @ [AddAccountRequest p])
            \<longleftrightarrow> account this = None)"
  using assms
  by (cases "account this"; cases "submit_loginDelaySecondsRange v (controls this)")
     (simp_all add: submit_def Let_def dispatch_def)

theorem submit_action_variant_witness:
  "fst (submit validate_5_10 (with_login (Val ''bob''))) = Inr () \<and>
   account (with_login (Val ''bob'')) = None \<and>
   (\<exists>p. store (snd (submit validate_5_10 (with_login (Val ''bob'')))) = [AddAccountRequest p]) \<and>
   fst (submit validate_5_10 loaded_alice) = Inr () \<and>
   account loaded_alice = Some account_alice \<and>
   (\<exists>p. store (snd (submit validate_5_10 loaded_alice)) = [UpdateAccountRequest p])"
  using submit_action_variant [OF submit_with_login_returns, of validate_5_10 "Val ''bob''"]
        submit_action_variant [OF submit_loaded_alice_returns]
        submit_with_login_returns [of validate_5_10 "Val ''bob''"] submit_loaded_alice_returns
        with_login_fields(1,2) [of "Val ''bob''"] loaded_alice_fields(1,2)
  by simp

subsection \<open>Parameters without a matching account\<close>

text \<open>
  C6. When the parameters carry a login for which the store's selector finds no account,
  the account stream emits nothing, whatever the pipe is serving, so the subscriber does
  not run: the component, its account and the value of every control are as before.
\<close>

theorem no_account_no_update:
  assumes "Params.login p = Val l" and "l \<noteq> []" and "pickAccount l = None"
  shows "fst (account_stream pickAccount serving p) = [] \<and>
         fst (ngOnInit_subscription toString pickAccount serving p this) = this \<and>
         account (fst (ngOnInit_subscription toString pickAccount serving p this))
           = account this \<and>
         controls (fst (ngOnInit_subscription toString pickAccount serving p this))
           = controls this"
  using assms
  by (cases serving)
     (simp_all add: ngOnInit_subscription_def account_stream_def mergeMap_def Let_def)

theorem no_account_no_update_witness:
  "Params.login \<lparr>Params.login = Val ''bob''\<rparr> = Val ''bob'' \<and> ''bob'' \<noteq> [] \<and>
   pick_alice ''bob'' = None \<and>
   fst (account_stream pick_alice None \<lparr>Params.login = Val ''bob''\<rparr>) = [] \<and>
   fst (ngOnInit_subscription toString_nat pick_alice None \<lparr>Params.login = Val ''bob''\<rparr>
          (AccountEditComponent_new [])) = AccountEditComponent_new [] \<and>
   fst (ngOnInit_subscription toString_nat pick_alice (Some ''alice'')
          \<lparr>Params.login = Val ''bob''\<rparr> loaded_alice) = loaded_alice"
  using no_account_no_update [of "\<lparr>Params.login = Val ''bob''\<rparr>" "''bob''" pick_alice
          None toString_nat "AccountEditComponent_new []"]
        no_account_no_update [of "\<lparr>Params.login = Val ''bob''\<rparr>" "''bob''" pick_alice
          "Some ''alice''" toString_nat loaded_alice]
        pick_alice_cases(2)
  by simp

subsection \<open>The control's validator\<close>

text \<open>
  C7. On a non-empty string in the login delay range control, the control's validator
  returns the error object with the utility's message exactly when the utility rejects the
  string with that message, and \<open>null\<close> exactly when the utility accepts it. While the
  validator reports an error, \<open>submit\<close> throws that message and dispatches nothing.
\<close>

theorem validator_agrees:
  assumes "controls.loginDelaySecondsRange (controls this) = Val s" and "s \<noteq> []"
  shows "(loginDelaySecondsRange_validator v (Some (controls this)) = Some \<lparr>errorMsg = msg\<rparr>
            \<longleftrightarrow> v s = ValidationError msg) \<and>
         (loginDelaySecondsRange_validator v (Some (controls this)) = None
            \<longleftrightarrow> (\<exists>r. v s = Validated r)) \<and>
         (\<forall>e. loginDelaySecondsRange_validator v (Some (controls this)) = Some e \<longrightarrow>
            submit v this = (Inl (Error (errorMsg e)), this))"
  using assms
  by (cases "v s")
     (simp_all add: submit_def Let_def submit_loginDelaySecondsRange_def
        loginDelaySecondsRange_validator_def)

theorem validator_agrees_witness:
  "controls.loginDelaySecondsRange (controls (with_loginDelaySecondsRange (Val ''10-5'')))
     = Val ''10-5'' \<and>
   ''10-5'' \<noteq> [] \<and>
   loginDelaySecondsRange_validator validate_5_10
     (Some (controls (with_loginDelaySecondsRange (Val ''10-5''))))
     = Some \<lparr>errorMsg = ''Invalid range''\<rparr> \<and>
   submit validate_5_10 (with_loginDelaySecondsRange (Val ''10-5'')) =
     (Inl (Error ''Invalid range''), with_loginDelaySecondsRange (Val ''10-5'')) \<and>
   controls.loginDelaySecondsRange (controls (with_loginDelaySecondsRange (Val ''5-10'')))
     = Val ''5-10'' \<and>
   ''5-10'' \<noteq> [] \<and>
   loginDelaySecondsRange_validator validate_5_10
     (Some (controls (with_loginDelaySecondsRange (Val ''5-10'')))) = None"
proof -
  note a = validator_agrees [of "with_loginDelaySecondsRange (Val ''10-5'')" "''10-5''"
             validate_5_10 "''Invalid range''", OF with_range_fields(3)]
  note b = validator_agrees [of "with_loginDelaySecondsRange (Val ''5-10'')" "''5-10''"
             validate_5_10 "''Invalid range''", OF with_range_fields(3)]
  have e: "loginDelaySecondsRange_validator validate_5_10
             (Some (controls (with_loginDelaySecondsRange (Val ''10-5''))))
           = Some \<lparr>errorMsg = ''Invalid range''\<rparr>"
    using a validate_5_10_cases by simp
  have s: "submit validate_5_10 (with_loginDelaySecondsRange (Val ''10-5'')) =
             (Inl (Error ''Invalid range''), with_loginDelaySecondsRange (Val ''10-5''))"
    using a e by simp
  have n: "loginDelaySecondsRange_validator validate_5_10
             (Some (controls (with_loginDelaySecondsRange (Val ''5-10'')))) = None"
    using b validate_5_10_cases by simp
  from e s n with_range_fields(3) show ?thesis by simp
qed

subsection \<open>The login of the patch\<close>

text \<open>
  C8. With a loaded account, the patch that \<open>submit\<close> dispatches carries that account's
  login, and what is dispatched does not depend on the value of the login control. With no
  loaded account the patch carries the value of the login control. After the subscriber
  has run on an account, the login control is no longer in the form group.
\<close>

theorem submit_patch_login:
  "(\<forall>a. account this = Some a \<longrightarrow> fst (submit v this) = Inr () \<longrightarrow>
      (\<exists>p. store (snd (submit v this)) = store this @ [UpdateAccountRequest p] \<and>
           AccountConfigCreateUpdatePatch.login p = Val (AccountConfig.login a)) \<and>
      (\<forall>x. store (snd (submit v (this\<lparr>controls := (controls this)\<lparr>controls.login := x\<rparr>\<rparr>)))
            = store (snd (submit v this)))) \<and>
   (account this = None \<longrightarrow> fst (submit v this) = Inr () \<longrightarrow>
      (\<exists>p. store (snd (submit v this)) = store this @ [AddAccountRequest p] \<and>
           AccountConfigCreateUpdatePatch.login p = controls.login (controls this))) \<and>
   ''login'' \<notin> form (account_next toString b this)"
  by (cases "account this"; cases "submit_loginDelaySecondsRange v (controls this)")
     (simp_all add: submit_def Let_def dispatch_def account_next_def removeControl_def
        submit_loginDelaySecondsRange_def)

theorem submit_patch_login_witness:
  "account loaded_alice = Some account_alice \<and>
   fst (submit validate_5_10 loaded_alice) = Inr () \<and>
   (\<exists>p. store (snd (submit validate_5_10 loaded_alice)) = [UpdateAccountRequest p] \<and>
        AccountConfigCreateUpdatePatch.login p = Val ''alice'') \<and>
   account (with_login (Val ''bob'')) = None \<and>
   fst (submit validate_5_10 (with_login (Val ''bob''))) = Inr () \<and>
   (\<exists>p. store (snd (submit validate_5_10 (with_login (Val ''bob'')))) = [AddAccountRequest p] \<and>
        AccountConfigCreateUpdatePatch.login p = Val ''bob'') \<and>
   ''login'' \<in> form (AccountEditComponent_new [] :: nat AccountEditComponent) \<and>
   ''login'' \<notin> form loaded_alice"
proof -
  have f: "''login'' \<notin> form loaded_alice"
    using submit_patch_login
            [where this = "AccountEditComponent_new []" and v = validate_5_10
               and toString = toString_nat and b = account_alice, folded loaded_alice_def]
    by simp
  from submit_patch_login [of loaded_alice validate_5_10]
       submit_patch_login [of "with_login (Val ''bob'')" validate_5_10]
       submit_with_login_returns [of validate_5_10 "Val ''bob''"] submit_loaded_alice_returns
       with_login_fields(1,2,3) [of "Val ''bob''"] loaded_alice_fields(1,2)
       account_alice_fields(1) f new_fields(4) [of "[] :: nat action list"]
  show ?thesis by simp
qed

subsection \<open>An empty range\<close>

text \<open>
  C9. When the login delay range control is \<open>null\<close>, \<open>undefined\<close> or the empty string,
  \<open>submit\<close> does not call the validation utility (its result is the same whatever the
  utility is), does not throw, and dispatches a patch whose \<open>loginDelaySecondsRange\<close> is
  \<open>undefined\<close>; the control's validator returns \<open>null\<close>.
\<close>

theorem submit_empty_range:
  assumes "controls.loginDelaySecondsRange (controls this) = Null \<or>
           controls.loginDelaySecondsRange (controls this) = Undefined \<or>
           controls.loginDelaySecondsRange (controls this) = Val []"
  shows "submit v this = submit v' this \<and>
         fst (submit v this) = Inr () \<and>
         (\<exists>p. store (snd (submit v this)) =
                store this @ [if account this = None then AddAccountRequest p
                              else UpdateAccountRequest p] \<and>
              AccountConfigCreateUpdatePatch.loginDelaySecondsRange p = None) \<and>
         loginDelaySecondsRange_validator v (Some (controls this)) = None \<and>
         loginDelaySecondsRange_validator v None = None"
  using assms
  by (cases "account this")
     (auto simp add: submit_def Let_def dispatch_def submit_loginDelaySecondsRange_def
        loginDelaySecondsRange_validator_def)

theorem submit_empty_range_witness:
  "controls.loginDelaySecondsRange (controls (with_loginDelaySecondsRange (Val []))) = Val [] \<and>
   submit validate_5_10 (with_loginDelaySecondsRange (Val [])) =
     submit ValidationError (with_loginDelaySecondsRange (Val [])) \<and>
   fst (submit validate_5_10 (with_loginDelaySecondsRange (Val []))) = Inr () \<and>
   (\<exists>p. store (snd (submit validate_5_10 (with_loginDelaySecondsRange (Val [])))) =
          [AddAccountRequest p] \<and>
        AccountConfigCreateUpdatePatch.loginDelaySecondsRange p = None) \<and>
   loginDelaySecondsRange_validator validate_5_10
     (Some (controls (with_loginDelaySecondsRange (Val [])))) = None"
proof -
  have h: "controls.loginDelaySecondsRange (controls (with_loginDelaySecondsRange (Val [])))
             = Val []"
    by (rule with_range_fields(3))
  note t = submit_empty_range [of "with_loginDelaySecondsRange (Val [])" validate_5_10
             ValidationError, OF disjI2 [OF disjI2 [OF h]]]
  have p: "\<exists>p. store (snd (submit validate_5_10 (with_loginDelaySecondsRange (Val [])))) =
                 [AddAccountRequest p] \<and>
               AccountConfigCreateUpdatePatch.loginDelaySecondsRange p = None"
    using t [THEN conjunct2] with_range_fields(1,2) [of "Val []"] by simp
  from h t p show ?thesis by blast
qed

subsection \<open>Proxy values of white space only\<close>

text \<open>
  C10. When each proxy control value is \<open>null\<close>, \<open>undefined\<close> or a string of white
  space only (the empty string among them), the patch that \<open>submit\<close> dispatches has no
  \<open>proxy\<close> key, and \<open>submit\<close> has the same outcome and dispatches the same as with both
  proxy controls empty.
\<close>

theorem submit_blank_proxy:
  assumes "case controls.proxyRules (controls this) of
             Val s \<Rightarrow> \<forall>c\<in>set s. WhiteSpace c | _ \<Rightarrow> True"
    and "case controls.proxyBypassRules (controls this) of
             Val s \<Rightarrow> \<forall>c\<in>set s. WhiteSpace c | _ \<Rightarrow> True"
  shows "(fst (submit v this) = Inr () \<longrightarrow>
            (\<exists>p. store (snd (submit v this)) =
                   store this @ [if account this = None then AddAccountRequest p
                                 else UpdateAccountRequest p] \<and>
                 AccountConfigCreateUpdatePatch.proxy p = None)) \<and>
         fst (submit v (this\<lparr>controls := (controls this)
                \<lparr>controls.proxyRules := Val [], controls.proxyBypassRules := Val []\<rparr>\<rparr>))
           = fst (submit v this) \<and>
         store (snd (submit v (this\<lparr>controls := (controls this)
                \<lparr>controls.proxyRules := Val [], controls.proxyBypassRules := Val []\<rparr>\<rparr>)))
           = store (snd (submit v this))"
  using assms
  by (cases "account this"; cases "submit_loginDelaySecondsRange v (controls this)";
      cases "controls.proxyRules (controls this)";
      cases "controls.proxyBypassRules (controls this)")
     (simp_all add: submit_def Let_def dispatch_def value_and_trim_def trim_eq_Nil_iff
        trim_Nil submit_loginDelaySecondsRange_def)

theorem submit_blank_proxy_witness:
  "WhiteSpace (CHR '' '') \<and>
   controls.proxyRules (controls (with_proxyRules (Val ''  ''))) = Val ''  '' \<and>
   controls.proxyBypassRules (controls (with_proxyRules (Val ''  ''))) = Null \<and>
   fst (submit validate_5_10 (with_proxyRules (Val ''  ''))) = Inr () \<and>
   (\<exists>p. store (snd (submit validate_5_10 (with_proxyRules (Val ''  '')))) =
          [AddAccountRequest p] \<and>
        AccountConfigCreateUpdatePatch.proxy p = None)"
proof -
  have c: "WhiteSpace (CHR '' '')" by (simp add: WhiteSpace_def)
  then have w: "\<forall>c\<in>set ''  ''. WhiteSpace c" by simp
  have h1: "case controls.proxyRules (controls (with_proxyRules (Val ''  ''))) of
              Val s \<Rightarrow> \<forall>c\<in>set s. WhiteSpace c | _ \<Rightarrow> True"
    using w by (simp add: with_proxyRules_fields)
  have h2: "case controls.proxyBypassRules (controls (with_proxyRules (Val ''  ''))) of
              Val s \<Rightarrow> \<forall>c\<in>set s. WhiteSpace c | _ \<Rightarrow> True"
    by (simp add: with_proxyRules_fields)
  from submit_blank_proxy [OF h1 h2, of validate_5_10, THEN conjunct1]
       submit_with_proxyRules_returns [of validate_5_10 "Val ''  ''"]
       with_proxyRules_fields [of "Val ''  ''"] c
  show ?thesis by simp
qed

end
